theory Spec2Isabelle
  imports Complex_Main
begin

section \<open>Go's float64, idealised\<close>

text \<open>
  The scoring code of \<^verbatim>\<open>criticalityscore/score.go\<close> computes in \<^verbatim>\<open>float64\<close>.
  The model keeps the special values of IEEE 754 (the two infinities and NaN) and takes
  every finite value as a real number: rounding error, overflow to infinity and the sign
  of zero are left out. A zero divisor counts as \<open>+0\<close>; in the program the divisors that
  can be zero are \<^verbatim>\<open>math.Log(1)\<close> and a sum of weights, and both are \<open>+0\<close>.
\<close>

datatype float64 = Fin real | PInf | NInf | NaN

fun fadd :: "float64 \<Rightarrow> float64 \<Rightarrow> float64" where
  "fadd (Fin a) (Fin b) = Fin (a + b)"
| "fadd NaN y = NaN"
| "fadd x NaN = NaN"
| "fadd PInf NInf = NaN"
| "fadd NInf PInf = NaN"
| "fadd PInf y = PInf"
| "fadd x PInf = PInf"
| "fadd NInf y = NInf"
| "fadd x NInf = NInf"

fun fmul :: "float64 \<Rightarrow> float64 \<Rightarrow> float64" where
  "fmul (Fin a) (Fin b) = Fin (a * b)"
| "fmul NaN y = NaN"
| "fmul x NaN = NaN"
| "fmul PInf (Fin b) = (if b = 0 then NaN else if 0 < b then PInf else NInf)"
| "fmul NInf (Fin b) = (if b = 0 then NaN else if 0 < b then NInf else PInf)"
| "fmul (Fin a) PInf = (if a = 0 then NaN else if 0 < a then PInf else NInf)"
| "fmul (Fin a) NInf = (if a = 0 then NaN else if 0 < a then NInf else PInf)"
| "fmul PInf PInf = PInf"
| "fmul NInf NInf = PInf"
| "fmul PInf NInf = NInf"
| "fmul NInf PInf = NInf"

fun fdiv :: "float64 \<Rightarrow> float64 \<Rightarrow> float64" where
  "fdiv (Fin a) (Fin b) =
     (if b = 0 then (if a = 0 then NaN else if 0 < a then PInf else NInf)
      else Fin (a / b))"
| "fdiv NaN y = NaN"
| "fdiv x NaN = NaN"
| "fdiv (Fin a) PInf = Fin 0"
| "fdiv (Fin a) NInf = Fin 0"
| "fdiv PInf (Fin b) = (if 0 \<le> b then PInf else NInf)"
| "fdiv NInf (Fin b) = (if 0 \<le> b then NInf else PInf)"
| "fdiv PInf PInf = NaN"
| "fdiv PInf NInf = NaN"
| "fdiv NInf PInf = NaN"
| "fdiv NInf NInf = NaN"

text \<open>\<^verbatim>\<open>math.Log\<close>: \<^verbatim>\<open>Log(+Inf) = +Inf\<close>, \<^verbatim>\<open>Log(0) = -Inf\<close>, \<^verbatim>\<open>Log(x < 0) = NaN\<close>,
  \<^verbatim>\<open>Log(NaN) = NaN\<close>.\<close>

fun flog :: "float64 \<Rightarrow> float64" where
  "flog (Fin x) = (if x < 0 then NaN else if x = 0 then NInf else Fin (ln x))"
| "flog PInf = PInf"
| "flog NInf = NaN"
| "flog NaN = NaN"

text \<open>\<^verbatim>\<open>math.Max\<close>: \<open>+Inf\<close> if either argument is \<open>+Inf\<close>, else NaN if either is NaN.\<close>

fun fmax :: "float64 \<Rightarrow> float64 \<Rightarrow> float64" where
  "fmax PInf y = PInf"
| "fmax x PInf = PInf"
| "fmax NaN y = NaN"
| "fmax x NaN = NaN"
| "fmax NInf y = y"
| "fmax x NInf = x"
| "fmax (Fin a) (Fin b) = (if a > b then Fin a else Fin b)"

text \<open>\<^verbatim>\<open>math.Round\<close>: the nearest integer, halves away from zero.\<close>

definition round_half_away :: "real \<Rightarrow> int" where
  "round_half_away x = (if 0 \<le> x then \<lfloor>x + 1 / 2\<rfloor> else - \<lfloor>- x + 1 / 2\<rfloor>)"

fun fround :: "float64 \<Rightarrow> float64" where
  "fround (Fin x) = Fin (of_int (round_half_away x))"
| "fround PInf = PInf"
| "fround NInf = NInf"
| "fround NaN = NaN"



definition isNaN :: "float64 \<Rightarrow> bool" where
  "isNaN x = (x = NaN)"

section \<open>Constants (constants.go)\<close>

definition CreatedSinceWeight :: float64 where "CreatedSinceWeight = Fin 1"
definition UpdatedSinceWeight :: float64 where "UpdatedSinceWeight = Fin (- 1)"
definition ContributorCountWeight :: float64 where "ContributorCountWeight = Fin 2"
definition OrgCountWeight :: float64 where "OrgCountWeight = Fin 1"
definition CommitFrequencyWeight :: float64 where "CommitFrequencyWeight = Fin 1"
definition RecentReleasesWeight :: float64 where "RecentReleasesWeight = Fin (1 / 2)"
definition ClosedIssuesWeight :: float64 where "ClosedIssuesWeight = Fin (1 / 2)"
definition UpdatedIssuesWeight :: float64 where "UpdatedIssuesWeight = Fin (1 / 2)"
definition CommentFrequencyWeight :: float64 where "CommentFrequencyWeight = Fin 1"
definition DependentsCountWeight :: float64 where "DependentsCountWeight = Fin 2"

definition CreatedSinceThreshold :: float64 where "CreatedSinceThreshold = Fin 120"
definition UpdatedSinceThreshold :: float64 where "UpdatedSinceThreshold = Fin 120"
definition ContributorCountThreshold :: float64 where "ContributorCountThreshold = Fin 5000"
definition OrgCountThreshold :: float64 where "OrgCountThreshold = Fin 10"
definition CommitFrequencyThreshold :: float64 where "CommitFrequencyThreshold = Fin 1000"
definition RecentReleasesThreshold :: float64 where "RecentReleasesThreshold = Fin 26"
definition ClosedIssuesThreshold :: float64 where "ClosedIssuesThreshold = Fin 5000"
definition UpdatedIssuesThreshold :: float64 where "UpdatedIssuesThreshold = Fin 5000"
definition CommentFrequencyThreshold :: float64 where "CommentFrequencyThreshold = Fin 15"
definition DependentsCountThreshold :: float64 where "DependentsCountThreshold = Fin 500000"

definition TopContributorCount :: nat where "TopContributorCount = 15"
definition IssueLookbackDays :: int where "IssueLookbackDays = 90"
definition ReleaseLookbackDays :: int where "ReleaseLookbackDays = 365"

lemmas weight_defs =
  CreatedSinceWeight_def UpdatedSinceWeight_def ContributorCountWeight_def OrgCountWeight_def
  CommitFrequencyWeight_def RecentReleasesWeight_def ClosedIssuesWeight_def
  UpdatedIssuesWeight_def CommentFrequencyWeight_def DependentsCountWeight_def

lemmas threshold_defs =
  CreatedSinceThreshold_def UpdatedSinceThreshold_def ContributorCountThreshold_def
  OrgCountThreshold_def CommitFrequencyThreshold_def RecentReleasesThreshold_def
  ClosedIssuesThreshold_def UpdatedIssuesThreshold_def CommentFrequencyThreshold_def
  DependentsCountThreshold_def

section \<open>ParamScore (score.go)\<close>

text \<open>
  The parameter is an \<^verbatim>\<open>interface{}\<close>; the type switch reads a \<^verbatim>\<open>float64\<close> or an
  \<^verbatim>\<open>int\<close> and leaves \<open>p\<close> at its zero value for any other dynamic type.
\<close>

datatype param = PFloat float64 | PInt int | POther

definition ParamScore :: "param \<Rightarrow> float64 \<Rightarrow> float64 \<Rightarrow> float64" where
  "ParamScore param maxValue weight =
     (let p = (case param of PFloat v \<Rightarrow> v | PInt v \<Rightarrow> Fin (of_int v) | POther \<Rightarrow> Fin 0)
      in fmul (fdiv (flog (fadd (Fin 1) p)) (flog (fadd (Fin 1) (fmax p maxValue)))) weight)"

section \<open>Strings and the library functions the code calls\<close>

text \<open>
  A Go \<^verbatim>\<open>string\<close> is modelled as a list of bytes. The code's \<^verbatim>\<open>[]rune\<close> conversion
  and \<^verbatim>\<open>strings.ToLower\<close> work on code points: the model agrees with them on ASCII
  text, which is what link headers, parameters and the examples of the specification are.
  A run that panics is the outcome \<open>Panic\<close>.
\<close>

datatype 'a outcome = Panic | Done 'a

definition isUpper :: "char \<Rightarrow> bool" where
  "isUpper c = (65 \<le> (of_char c :: nat) \<and> (of_char c :: nat) \<le> 90)"

definition toLowerChar :: "char \<Rightarrow> char" where
  "toLowerChar c = (if isUpper c then char_of ((of_char c :: nat) + 32) else c)"

definition ToLower :: "string \<Rightarrow> string" where
  "ToLower s = map toLowerChar s"

definition HasPrefix :: "string \<Rightarrow> string \<Rightarrow> bool" where
  "HasPrefix s pre = (take (length pre) s = pre)"

text \<open>
  \<^verbatim>\<open>strings.NewReplacer(old1, new1, ...).Replace\<close> with the generic algorithm (chosen as
  soon as one old string is longer than a byte): at each position, from left to right, the
  first pair in argument order whose old string starts there is replaced and skipped;
  matches do not overlap. The old strings of the code are all non-empty.
\<close>

definition lookupPair :: "(string \<times> string) list \<Rightarrow> string \<Rightarrow> (string \<times> string) option" where
  "lookupPair pairs s = find (\<lambda>pr. fst pr \<noteq> [] \<and> HasPrefix s (fst pr)) pairs"

function Replace :: "(string \<times> string) list \<Rightarrow> string \<Rightarrow> string" where
  "Replace pairs [] = []"
| "Replace pairs (c # cs) =
     (case lookupPair pairs (c # cs) of
        Some pr \<Rightarrow> snd pr @ Replace pairs (drop (length (fst pr)) (c # cs))
      | None \<Rightarrow> c # Replace pairs cs)"
  by pat_completeness auto
termination
proof (relation "measure (\<lambda>(pairs, s). length s)")
  show "wf (measure (\<lambda>(pairs, s). length s))" by simp
next
  fix pairs :: "(string \<times> string) list" and c cs pr
  assume "lookupPair pairs (c # cs) = Some pr"
  then have "fst pr \<noteq> []"
    by (auto simp: lookupPair_def find_Some_iff)
  then show "((pairs, drop (length (fst pr)) (c # cs)), (pairs, c # cs))
             \<in> measure (\<lambda>(pairs, s). length s)"
    by (cases "fst pr") auto
next
  fix pairs :: "(string \<times> string) list" and c :: char and cs :: string
  show "((pairs, cs), (pairs, c # cs)) \<in> measure (\<lambda>(pairs, s). length s)" by simp
qed

definition TrimRight :: "string \<Rightarrow> string \<Rightarrow> string" where
  "TrimRight s cutset = rev (dropWhile (\<lambda>c. c \<in> set cutset) (rev s))"

text \<open>\<^verbatim>\<open>strings.Split\<close>; an empty separator splits after each byte.\<close>

function Split :: "string \<Rightarrow> string \<Rightarrow> string list" where
  "Split s sep =
     (if sep = [] then map (\<lambda>c. [c]) s
      else if s = [] then [[]]
      else if HasPrefix s sep then [] # Split (drop (length sep) s) sep
      else (case Split (tl s) sep of
              h # t \<Rightarrow> (hd s # h) # t
            | [] \<Rightarrow> [[hd s]]))"
  by pat_completeness auto
termination
  by (relation "measure (\<lambda>(s, sep). length s)") (auto simp: neq_Nil_conv)

declare Split.simps [simp del]

text \<open>
  \<^verbatim>\<open>strconv.Atoi\<close>: an optional sign and decimal digits. The pair is the value and
  whether \<^verbatim>\<open>err\<close> is nil; a syntax error gives 0, a value outside \<^verbatim>\<open>int64\<close> gives the
  nearest bound, both with an error.
\<close>

definition isDigit :: "char \<Rightarrow> bool" where
  "isDigit c = (48 \<le> (of_char c :: nat) \<and> (of_char c :: nat) \<le> 57)"

definition digitsValue :: "string \<Rightarrow> int" where
  "digitsValue ds = foldl (\<lambda>n ch. n * 10 + (int (of_char ch) - 48)) 0 ds"

definition Atoi :: "string \<Rightarrow> int \<times> bool" where
  "Atoi s =
     (let neg = (s \<noteq> [] \<and> hd s = CHR ''-'');
          ds = (if s \<noteq> [] \<and> (hd s = CHR ''-'' \<or> hd s = CHR ''+'') then tl s else s)
      in if ds = [] \<or> \<not> list_all isDigit ds then (0, False)
         else let v = (if neg then - digitsValue ds else digitsValue ds)
              in if v < - (2 ^ 63) then (- (2 ^ 63), False)
                 else if 2 ^ 63 - 1 < v then (2 ^ 63 - 1, False)
                 else (v, True))"

text \<open>
  The functions of Go's standard library that the code calls and that are not modelled
  here are parameters of the model:
  \<^item> \<open>ParseFloat s\<close> is \<^verbatim>\<open>strconv.ParseFloat(s, 64)\<close>, \<open>None\<close> when it returns an error;
  \<^item> \<open>url_Parse s\<close> is the \<^verbatim>\<open>RawQuery\<close> of \<^verbatim>\<open>url.Parse(s)\<close>, \<open>None\<close> when it returns an
    error;
  \<^item> \<open>query_Get q key\<close> is \<^verbatim>\<open>m.Get(key)\<close> for \<^verbatim>\<open>m, _ := url.ParseQuery(q)\<close>;
  \<^item> \<open>FindSubmatch b\<close> is \<^verbatim>\<open>DependentsRegex.FindSubmatch(b)\<close>;
  \<^item> \<open>FormatUnixDate t\<close> is \<^verbatim>\<open>t.UTC().Format(time.UnixDate)\<close>;
  \<^item> \<open>growslice c n\<close> is the capacity the runtime's \<^verbatim>\<open>append\<close> gives a slice of
    capacity \<open>c\<close> that has to hold \<open>n\<close> elements and cannot.
\<close>

record Lib =
  ParseFloat :: "string \<Rightarrow> float64 option"
  url_Parse :: "string \<Rightarrow> string option"
  query_Get :: "string \<Rightarrow> string \<Rightarrow> string"
  FindSubmatch :: "string \<Rightarrow> string list"
  FormatUnixDate :: "int \<Rightarrow> string"
  growslice :: "nat \<Rightarrow> nat \<Rightarrow> nat"

section \<open>utils.go\<close>

text \<open>\<^verbatim>\<open>substr\<close>; the slice expression \<^verbatim>\<open>asRunes[start:end]\<close> panics when its bounds are
  out of order.\<close>

definition substr :: "string \<Rightarrow> int \<Rightarrow> int \<Rightarrow> string outcome" where
  "substr input start endp =
     (let n = int (length input)
      in if start \<ge> n then Done []
         else let end1 = (if endp > n then n - 1 else endp);
                  end2 = (if end1 \<le> 0 then n + end1 else end1)
              in if 0 \<le> start \<and> start \<le> end2 \<and> end2 \<le> n
                 then Done (take (nat (end2 - start)) (drop (nat start) input))
                 else Panic)"

text \<open>The response of an API call, as far as the code reads it: the value of
  \<^verbatim>\<open>resp.Header.Get("link")\<close> (empty when there is no such header), \<^verbatim>\<open>resp.NextPage\<close>
  and \<^verbatim>\<open>resp.StatusCode\<close>.\<close>

record Response =
  Link :: string
  NextPage :: int
  StatusCode :: int

fun parseLinks :: "string list \<Rightarrow> (string \<rightharpoonup> string) \<Rightarrow> (string \<rightharpoonup> string) outcome" where
  "parseLinks [] links = Done links"
| "parseLinks (linkHeader # rest) links =
     (let lh = Split linkHeader ''; ''
      in if length lh < 2 then parseLinks rest links
         else (case substr (lh ! 0) 1 (- 1) of
                 Panic \<Rightarrow> Panic
               | Done u \<Rightarrow>
                   (case substr (lh ! 1) 5 (- 1) of
                      Panic \<Rightarrow> Panic
                    | Done r \<Rightarrow> parseLinks rest (links(r \<mapsto> u)))))"

definition parseLinkHeader :: "string \<Rightarrow> (string \<rightharpoonup> string) outcome" where
  "parseLinkHeader link = parseLinks (Split link '', '') Map.empty"

definition totalCount :: "Lib \<Rightarrow> Response \<Rightarrow> int outcome" where
  "totalCount L resp =
     (case parseLinkHeader (Link resp) of
        Panic \<Rightarrow> Panic
      | Done links \<Rightarrow>
          (case links ''last'' of
             None \<Rightarrow> Done 0
           | Some lastURL \<Rightarrow>
               (case url_Parse L lastURL of
                  None \<Rightarrow> Done 0
                | Some rawQuery \<Rightarrow>
                    (let r = Atoi (query_Get L rawQuery ''page'')
                     in if snd r then Done (fst r) else Done 0))))"

definition filterOrgName :: "string \<Rightarrow> string" where
  "filterOrgName orgName =
     TrimRight
       (Replace [(''inc.'', []), (''llc'', []), (''@'', []), ('' '', [])] (ToLower orgName))
       '',''"

section \<open>Time, integers and slices\<close>

text \<open>
  A \<^verbatim>\<open>time.Time\<close> is a count of nanoseconds since the Unix epoch and a
  \<^verbatim>\<open>time.Duration\<close> a count of nanoseconds in \<^verbatim>\<open>int64\<close>: \<^verbatim>\<open>Time.Sub\<close> saturates at
  the bounds of \<^verbatim>\<open>int64\<close>. \<^verbatim>\<open>Duration.Hours\<close> is a \<^verbatim>\<open>float64\<close>, taken as a real.
  The zero \<^verbatim>\<open>Time\<close> is the first instant of year 1.
\<close>

type_synonym Time = int
type_synonym Duration = int

definition time_Sub :: "Time \<Rightarrow> Time \<Rightarrow> Duration" where
  "time_Sub t u = max (- (2 ^ 63)) (min (2 ^ 63 - 1) (t - u))"

definition Hours :: "Duration \<Rightarrow> real" where
  "Hours d = of_int d / 3600000000000"

definition zeroTime :: Time where
  "zeroTime = - 62135596800000000000"

text \<open>Go's \<^verbatim>\<open>int\<close> is \<^verbatim>\<open>int64\<close>: arithmetic wraps, division truncates toward zero.\<close>

definition wrap64 :: "int \<Rightarrow> int" where
  "wrap64 x = (x + 2 ^ 63) mod 2 ^ 64 - 2 ^ 63"

definition quot :: "int \<Rightarrow> int \<Rightarrow> int" where
  "quot a b = sgn a * sgn b * (\<bar>a\<bar> div \<bar>b\<bar>)"

text \<open>
  A slice is its elements and its capacity. \<^verbatim>\<open>append\<close> keeps the capacity while the
  elements fit and asks the runtime for a larger array otherwise: \<open>grow c n\<close> is the
  capacity the runtime gives for old capacity \<open>c\<close> and needed length \<open>n\<close> (at least
  \<open>n\<close>; the language leaves the rest to the implementation). The array beyond the
  length is zeroed. A slice expression \<^verbatim>\<open>s[:k]\<close> is checked against the capacity, not
  the length.
\<close>

record 'a slice =
  elems :: "'a list"
  cap :: nat

definition nilSlice :: "'a slice" where
  "nilSlice = \<lparr>elems = [], cap = 0\<rparr>"

definition append_slice :: "(nat \<Rightarrow> nat \<Rightarrow> nat) \<Rightarrow> 'a slice \<Rightarrow> 'a list \<Rightarrow> 'a slice" where
  "append_slice grow s xs =
     (let n = length (elems s) + length xs
      in if n \<le> cap s then s\<lparr>elems := elems s @ xs\<rparr>
         else \<lparr>elems = elems s @ xs, cap = max n (grow (cap s) n)\<rparr>)"

text \<open>\<^verbatim>\<open>s[:k]\<close> for a slice of pointers: the elements, then nil pointers up to \<open>k\<close>.\<close>

definition slice_to :: "'a slice \<Rightarrow> nat \<Rightarrow> 'a option list outcome" where
  "slice_to s k =
     (if k > cap s then Panic
      else Done (take k (map Some (elems s) @ replicate (k - length (elems s)) None)))"

section \<open>The remote API (go-github) as the code sees it\<close>

text \<open>
  An API call returns a value, a response and an error. When the error is not nil the
  response may be nil (a failure below HTTP) or not (an HTTP status that go-github turns
  into an error, as the 202 of a statistic still being computed).
\<close>

type_synonym error = string

datatype 'a call = Failed "Response option" error | Succeeded 'a Response

text \<open>
  Of a commit the code reads \<^verbatim>\<open>lastCommit.Commit.Author.GetDate()\<close>: \<open>None\<close> is a nil
  \<^verbatim>\<open>Commit\<close> pointer, whose dereference panics; \<open>Some None\<close> is a missing author or date,
  for which the getter returns the zero time.
\<close>

datatype RepositoryCommit = RepositoryCommit (AuthorDate: "Time option option")

datatype Contributor = Contributor (GetID: int)

datatype User = User (GetCompany: string)

datatype WeeklyCommitActivity = WeeklyCommitActivity (GetTotal: int)

text \<open>\<^verbatim>\<open>release.CreatedAt\<close> is a pointer: \<open>None\<close> is nil, and \<^verbatim>\<open>.Time\<close> on it panics.\<close>

datatype RepositoryRelease = RepositoryRelease (ReleaseCreatedAt: "Time option")

datatype httpResult = HttpError | HttpResponse int string bool

text \<open>
  The world of one run: the clock and what each request of the code would be answered.
  The requests carry the repository's owner and name, which are fixed for a run and left
  out. \<open>ListContributors anon perPage page\<close>, \<open>ListReleases perPage page\<close>,
  \<open>ListTags perPage\<close>, \<open>IssuesListByRepo state since perPage\<close>,
  \<open>IssuesListComments since perPage\<close>; \<open>httpGet i\<close> is the \<open>i\<close>-th \<^verbatim>\<open>http.Get\<close> of the
  search page: an error, or a status, the body and whether reading the body succeeds.
\<close>

record World =
  Now :: Time
  ListCommits :: "RepositoryCommit list call"
  ListContributors :: "string \<Rightarrow> int \<Rightarrow> int \<Rightarrow> Contributor list call"
  UsersGetByID :: "int \<Rightarrow> User call"
  ListCommitActivity :: "WeeklyCommitActivity list call"
  ListReleases :: "int \<Rightarrow> int \<Rightarrow> RepositoryRelease list call"
  ListTags :: "int \<Rightarrow> unit call"
  IssuesListByRepo :: "string \<Rightarrow> Time \<Rightarrow> int \<Rightarrow> unit call"
  IssuesListComments :: "Time \<Rightarrow> int \<Rightarrow> unit call"
  httpGet :: "nat \<Rightarrow> httpResult"

text \<open>The requests a run makes, in a trace.\<close>

datatype Call =
    CListCommits
  | CListContributors string int int
  | CUsersGetByID int
  | CListCommitActivity
  | CListReleases int int
  | CListTags int
  | CIssuesListByRepo string Time int
  | CIssuesListComments Time int
  | CHttpGet nat

definition Since :: "World \<Rightarrow> Time \<Rightarrow> Duration" where
  "Since W t = time_Sub (Now W) t"

section \<open>github.go\<close>

definition ErrCommitFrequencyBeingCalculated :: error where
  "ErrCommitFrequencyBeingCalculated =
     ''commit frequency is being calculated by github, please try again''"

text \<open>
  \<open>R\<close> is the repository as \<^verbatim>\<open>LoadRepository\<close> fetched it (not nil), read through
  go-github's getters; \<^verbatim>\<open>CreatedAt\<close> is a pointer and \<open>None\<close> when nil. The context and
  the client are the \<open>World\<close>.
\<close>

record Repository =
  GetName :: string
  GetHTMLURL :: string
  GetLanguage :: string
  CreatedAt :: "Time option"

record GitHubRepository =
  R :: Repository
  Error :: "error option"

text \<open>
  Every provider is declared with a value receiver: it works on its own copy of the
  \<^verbatim>\<open>GitHubRepository\<close>. A provider of the model returns the requests it made and, unless
  it panics, its copy of the receiver as it is at the return together with the value
  returned.
\<close>

type_synonym 'a provider = "Call list \<times> (GitHubRepository \<times> 'a) outcome"

definition months :: "Duration \<Rightarrow> int" where
  "months difference = round_half_away (Hours difference / 24 / 30)"

definition CreatedSince :: "World \<Rightarrow> GitHubRepository \<Rightarrow> int provider" where
  "CreatedSince W ghr =
     (case CreatedAt (R ghr) of
        None \<Rightarrow> ([], Panic)
      | Some t \<Rightarrow> ([], Done (ghr, months (Since W t))))"

definition UpdatedSince :: "World \<Rightarrow> GitHubRepository \<Rightarrow> int provider" where
  "UpdatedSince W ghr =
     (case ListCommits W of
        Failed resp err \<Rightarrow> ([CListCommits], Done (ghr\<lparr>Error := Some err\<rparr>, 0))
      | Succeeded commits resp \<Rightarrow>
          (case commits of
             [] \<Rightarrow> ([CListCommits], Panic)
           | lastCommit # rest \<Rightarrow>
               (case AuthorDate lastCommit of
                  None \<Rightarrow> ([CListCommits], Panic)
                | Some d \<Rightarrow>
                    ([CListCommits],
                     Done (ghr, months (Since W (case d of None \<Rightarrow> zeroTime | Some t \<Rightarrow> t)))))))"

definition Contributors :: "Lib \<Rightarrow> World \<Rightarrow> GitHubRepository \<Rightarrow> int provider" where
  "Contributors L W ghr =
     (case ListContributors W ''true'' 1 0 of
        Failed resp err \<Rightarrow>
          ([CListContributors ''true'' 1 0], Done (ghr\<lparr>Error := Some err\<rparr>, 0))
      | Succeeded contributors resp \<Rightarrow>
          ([CListContributors ''true'' 1 0],
           case totalCount L resp of Panic \<Rightarrow> Panic | Done n \<Rightarrow> Done (ghr, n)))"

text \<open>
  The fetch loop of \<^verbatim>\<open>ContributorOrgs\<close>. It ends on an error, on a response without a
  next page, or once more than \<open>TopContributorCount\<close> contributors are collected; it need
  not end, and then the result is \<open>None\<close>.
\<close>

partial_function (option) fetchContributors ::
  "Lib \<Rightarrow> World \<Rightarrow> int \<Rightarrow> Contributor slice \<Rightarrow> Call list
     \<Rightarrow> (Call list \<times> (error + Contributor slice)) option" where
  "fetchContributors L W page allContributors tr =
     (case ListContributors W ''false'' 25 page of
        Failed resp err \<Rightarrow> Some (tr @ [CListContributors ''false'' 25 page], Inl err)
      | Succeeded contributors resp \<Rightarrow>
          (if NextPage resp = 0
           then Some (tr @ [CListContributors ''false'' 25 page],
                      Inr (append_slice (growslice L) allContributors contributors))
           else if length (elems (append_slice (growslice L) allContributors contributors))
                   > TopContributorCount
           then Some (tr @ [CListContributors ''false'' 25 page],
                      Inr (append_slice (growslice L) allContributors contributors))
           else fetchContributors L W (NextPage resp)
                  (append_slice (growslice L) allContributors contributors)
                  (tr @ [CListContributors ''false'' 25 page])))"

declare fetchContributors.simps [code]

text \<open>The loop over the top contributors: a nil contributor has ID 0; a failed lookup
  and an empty company are skipped.\<close>

fun contributorCompanies ::
  "World \<Rightarrow> Contributor option list \<Rightarrow> string set \<Rightarrow> Call list \<Rightarrow> Call list \<times> string set" where
  "contributorCompanies W [] orgs tr = (tr, orgs)"
| "contributorCompanies W (contributor # rest) orgs tr =
     (let uid = (case contributor of None \<Rightarrow> 0 | Some c \<Rightarrow> GetID c)
      in case UsersGetByID W uid of
           Failed resp err \<Rightarrow> contributorCompanies W rest orgs (tr @ [CUsersGetByID uid])
         | Succeeded user resp \<Rightarrow>
             (if GetCompany user = []
              then contributorCompanies W rest orgs (tr @ [CUsersGetByID uid])
              else contributorCompanies W rest
                     (insert (filterOrgName (GetCompany user)) orgs)
                     (tr @ [CUsersGetByID uid])))"

definition ContributorOrgs ::
  "Lib \<Rightarrow> World \<Rightarrow> GitHubRepository \<Rightarrow> (string set) provider option" where
  "ContributorOrgs L W ghr =
     (case fetchContributors L W 0 nilSlice [] of
        None \<Rightarrow> None
      | Some (tr, Inl err) \<Rightarrow> Some (tr, Done (ghr\<lparr>Error := Some err\<rparr>, {}))
      | Some (tr, Inr allContributors) \<Rightarrow>
          (if length (elems allContributors) > 5000
           then Some (tr, Done (ghr, set (map (\<lambda>i. [char_of i]) [0..<10])))
           else (case slice_to allContributors TopContributorCount of
                   Panic \<Rightarrow> Some (tr, Panic)
                 | Done topContributors \<Rightarrow>
                     Some (fst (contributorCompanies W topContributors {} tr),
                           Done (ghr, snd (contributorCompanies W topContributors {} tr))))))"

definition roundTo1 :: "float64 \<Rightarrow> float64" where
  "roundTo1 x = fdiv (fround (fmul x (Fin 10))) (Fin 10)"

definition CommitFrequency :: "World \<Rightarrow> GitHubRepository \<Rightarrow> float64 provider" where
  "CommitFrequency W ghr =
     (case ListCommitActivity W of
        Failed resp err \<Rightarrow>
          (case resp of
             None \<Rightarrow> ([CListCommitActivity], Panic)
           | Some r \<Rightarrow>
               (if StatusCode r = 202
                then ([CListCommitActivity],
                      Done (ghr\<lparr>Error := Some ErrCommitFrequencyBeingCalculated\<rparr>, Fin 0))
                else ([CListCommitActivity], Done (ghr\<lparr>Error := Some err\<rparr>, Fin 0))))
      | Succeeded weekStats resp \<Rightarrow>
          ([CListCommitActivity],
           Done (ghr,
                 roundTo1 (fdiv (Fin (of_int (foldl (\<lambda>total weekStat. wrap64 (total + GetTotal weekStat))
                                               0 weekStats)))
                                (Fin 52)))))"

text \<open>The fetch loop of \<^verbatim>\<open>RecentReleases\<close>: it ends on an error or on a response
  without a next page.\<close>

partial_function (option) fetchReleases ::
  "World \<Rightarrow> int \<Rightarrow> RepositoryRelease list \<Rightarrow> Call list
     \<Rightarrow> (Call list \<times> (error + RepositoryRelease list)) option" where
  "fetchReleases W page allReleases tr =
     (case ListReleases W 100 page of
        Failed resp err \<Rightarrow> Some (tr @ [CListReleases 100 page], Inl err)
      | Succeeded releases resp \<Rightarrow>
          (if NextPage resp = 0
           then Some (tr @ [CListReleases 100 page], Inr (allReleases @ releases))
           else fetchReleases W (NextPage resp) (allReleases @ releases)
                  (tr @ [CListReleases 100 page])))"

declare fetchReleases.simps [code]

definition inLookback :: "World \<Rightarrow> Time \<Rightarrow> bool" where
  "inLookback W t = (\<not> (Hours (Since W t) / 24 > of_int ReleaseLookbackDays))"

definition countRecent :: "World \<Rightarrow> RepositoryRelease list \<Rightarrow> int outcome" where
  "countRecent W allReleases =
     (if list_ex (\<lambda>release. ReleaseCreatedAt release = None) allReleases then Panic
      else Done (int (length (filter
                   (\<lambda>release. case ReleaseCreatedAt release of
                                 None \<Rightarrow> False
                               | Some t \<Rightarrow> inLookback W t)
                   allReleases))))"

definition RecentReleases :: "Lib \<Rightarrow> World \<Rightarrow> GitHubRepository \<Rightarrow> int provider option" where
  "RecentReleases L W ghr =
     (case fetchReleases W 0 [] [] of
        None \<Rightarrow> None
      | Some (tr, Inl err) \<Rightarrow> Some (tr, Done (ghr\<lparr>Error := Some err\<rparr>, 0))
      | Some (tr, Inr allReleases) \<Rightarrow>
          (case countRecent W allReleases of
             Panic \<Rightarrow> Some (tr, Panic)
           | Done recent \<Rightarrow>
               (if recent = 0
                then (case CreatedAt (R ghr) of
                        None \<Rightarrow> Some (tr, Panic)
                      | Some created \<Rightarrow>
                          (let daysSinceCreation = quot (Since W created) 24
                           in if daysSinceCreation = 0 then Some (tr, Done (ghr, 0))
                              else (case ListTags W 1 of
                                      Failed resp err \<Rightarrow>
                                        Some (tr @ [CListTags 1],
                                              Done (ghr\<lparr>Error := Some err\<rparr>, 0))
                                    | Succeeded tags resp2 \<Rightarrow>
                                        (case totalCount L resp2 of
                                           Panic \<Rightarrow> Some (tr @ [CListTags 1], Panic)
                                         | Done totalTags \<Rightarrow>
                                             Some (tr @ [CListTags 1],
                                                   Done (ghr,
                                                         wrap64 (wrap64 (quot totalTags daysSinceCreation)
                                                                 * ReleaseLookbackDays)))))))
                else Some (tr, Done (ghr, recent)))))"

definition issuesSinceTime :: "World \<Rightarrow> Time" where
  "issuesSinceTime W = Now W + (- IssueLookbackDays * 24 * 3600000000000)"

definition UpdatedIssues :: "Lib \<Rightarrow> World \<Rightarrow> GitHubRepository \<Rightarrow> int provider" where
  "UpdatedIssues L W ghr =
     (case IssuesListByRepo W ''all'' (issuesSinceTime W) 1 of
        Failed resp err \<Rightarrow>
          ([CIssuesListByRepo ''all'' (issuesSinceTime W) 1], Done (ghr\<lparr>Error := Some err\<rparr>, 0))
      | Succeeded issues resp \<Rightarrow>
          ([CIssuesListByRepo ''all'' (issuesSinceTime W) 1],
           case totalCount L resp of Panic \<Rightarrow> Panic | Done n \<Rightarrow> Done (ghr, n)))"

definition ClosedIssues :: "Lib \<Rightarrow> World \<Rightarrow> GitHubRepository \<Rightarrow> int provider" where
  "ClosedIssues L W ghr =
     (case IssuesListByRepo W ''closed'' (issuesSinceTime W) 1 of
        Failed resp err \<Rightarrow>
          ([CIssuesListByRepo ''closed'' (issuesSinceTime W) 1],
           Done (ghr\<lparr>Error := Some err\<rparr>, 0))
      | Succeeded issues resp \<Rightarrow>
          ([CIssuesListByRepo ''closed'' (issuesSinceTime W) 1],
           case totalCount L resp of Panic \<Rightarrow> Panic | Done n \<Rightarrow> Done (ghr, n)))"

definition CommentFrequency :: "Lib \<Rightarrow> World \<Rightarrow> GitHubRepository \<Rightarrow> int \<Rightarrow> float64 provider" where
  "CommentFrequency L W ghr issueCount =
     (if issueCount = 0 then ([], Done (ghr, Fin 0))
      else (case IssuesListComments W (issuesSinceTime W) 1 of
              Failed resp err \<Rightarrow>
                ([CIssuesListComments (issuesSinceTime W) 1],
                 Done (ghr\<lparr>Error := Some err\<rparr>, Fin 0))
            | Succeeded comments resp \<Rightarrow>
                ([CIssuesListComments (issuesSinceTime W) 1],
                 case totalCount L resp of
                   Panic \<Rightarrow> Panic
                 | Done commentCount \<Rightarrow>
                     Done (ghr, roundTo1 (fdiv (Fin (of_int commentCount))
                                               (Fin (of_int issueCount)))))))"

text \<open>The three attempts of \<^verbatim>\<open>Dependents\<close>; a body that fails to be read is kept as
  far as it was read, and the next attempt follows without a pause.\<close>

fun dependentsFetch :: "World \<Rightarrow> nat list \<Rightarrow> string \<Rightarrow> Call list \<Rightarrow> Call list \<times> string" where
  "dependentsFetch W [] content tr = (tr, content)"
| "dependentsFetch W (i # rest) content tr =
     (case httpGet W i of
        HttpError \<Rightarrow> dependentsFetch W rest content (tr @ [CHttpGet i])
      | HttpResponse status body readOk \<Rightarrow>
          (if status = 200
           then (if readOk then (tr @ [CHttpGet i], body)
                 else dependentsFetch W rest body (tr @ [CHttpGet i]))
           else dependentsFetch W rest content (tr @ [CHttpGet i])))"

definition isSpace :: "char \<Rightarrow> bool" where
  "isSpace c = ((of_char c :: nat) \<in> {9, 10, 11, 12, 13, 32})"

definition TrimSpace :: "string \<Rightarrow> string" where
  "TrimSpace s = rev (dropWhile isSpace (rev (dropWhile isSpace s)))"

definition Dependents :: "Lib \<Rightarrow> World \<Rightarrow> GitHubRepository \<Rightarrow> int provider" where
  "Dependents L W ghr =
     (let fetched = dependentsFetch W [1, 2, 3] [] []
      in case FindSubmatch L (snd fetched) of
           [] \<Rightarrow> (fst fetched, Done (ghr, 0))
         | [m0] \<Rightarrow> (fst fetched, Panic)
         | m0 # m1 # ms \<Rightarrow>
             (fst fetched,
              Done (ghr, fst (Atoi (TrimSpace (filter (\<lambda>c. c \<noteq> CHR '','') m1))))))"

section \<open>score.go\<close>

definition ErrInvalidParamFormat :: error where
  "ErrInvalidParamFormat = ''invalid param format''"

text \<open>The fields \<^verbatim>\<open>CreatedSince\<close>, \<^verbatim>\<open>UpdatedSince\<close>, \<^verbatim>\<open>CommitFrequency\<close> and
  \<^verbatim>\<open>CommentFrequency\<close> carry a prime: the providers have these names.\<close>

record Score =
  Name :: string
  URL :: string
  Language :: string
  CreatedSince' :: int
  UpdatedSince' :: int
  ContributorCount :: int
  OrgCount :: int
  CommitFrequency' :: float64
  RecentReleasesCount :: int
  ClosedIssuesCount :: int
  UpdatedIssuesCount :: int
  CommentFrequency' :: float64
  DependentsCount :: int
  CriticalityScore :: float64
  ScoredOn :: string

text \<open>\<^verbatim>\<open>Score{}\<close>, every field at its zero value.\<close>

definition emptyScore :: Score where
  "emptyScore =
     \<lparr>Name = [], URL = [], Language = [], CreatedSince' = 0, UpdatedSince' = 0,
      ContributorCount = 0, OrgCount = 0, CommitFrequency' = Fin 0, RecentReleasesCount = 0,
      ClosedIssuesCount = 0, UpdatedIssuesCount = 0, CommentFrequency' = Fin 0,
      DependentsCount = 0, CriticalityScore = Fin 0, ScoredOn = []\<rparr>"

record AdditionalParam =
  Value :: float64
  Weight :: float64
  MaxThreshold :: float64

text \<open>\<^verbatim>\<open>parseAdditionalParams\<close> (utils.go): the loop over the strings, which returns at
  the first malformed one.\<close>

fun parseParams :: "Lib \<Rightarrow> string list \<Rightarrow> AdditionalParam list \<Rightarrow> error + AdditionalParam list" where
  "parseParams L [] additionalParams = Inr additionalParams"
| "parseParams L (p # rest) additionalParams =
     (let ps = Split p '':''
      in if length ps \<noteq> 3
         then Inl ''param string should have 3 values (value:weight:threshold)''
         else (case ParseFloat L (ps ! 0) of
                 None \<Rightarrow> Inl ''param value should be type float64''
               | Some v \<Rightarrow>
                   (case ParseFloat L (ps ! 1) of
                      None \<Rightarrow> Inl ''param weight should be type float64''
                    | Some w \<Rightarrow>
                        (case ParseFloat L (ps ! 2) of
                           None \<Rightarrow> Inl ''param max_threshold should be type float64''
                         | Some mt \<Rightarrow>
                             parseParams L rest
                               (additionalParams @ [\<lparr>Value = v, Weight = w, MaxThreshold = mt\<rparr>])))))"

definition parseAdditionalParams :: "Lib \<Rightarrow> string list \<Rightarrow> error + AdditionalParam list" where
  "parseAdditionalParams L params =
     (if length params = 0 then Inr [] else parseParams L params [])"

text \<open>
  The nine goroutines. Each calls its provider on \<^verbatim>\<open>ghr\<close>, which copies \<^verbatim>\<open>ghr\<close> into
  the receiver, and writes the value returned into its own fields of \<^verbatim>\<open>score\<close>; the
  receiver's copy is dropped when the provider returns. A goroutine of the model is the
  requests it makes and the write it does on \<^verbatim>\<open>score\<close>, \<open>Panic\<close> if it panics, \<open>None\<close>
  if it never finishes.
\<close>

type_synonym goroutine = "(Call list \<times> (Score \<Rightarrow> Score) outcome) option"

definition go :: "'a provider \<Rightarrow> ('a \<Rightarrow> Score \<Rightarrow> Score) \<Rightarrow> goroutine" where
  "go m write =
     Some (fst m, case snd m of Panic \<Rightarrow> Panic | Done receiver_value \<Rightarrow> Done (write (snd receiver_value)))"

definition goIssues :: "Lib \<Rightarrow> World \<Rightarrow> GitHubRepository \<Rightarrow> goroutine" where
  "goIssues L W ghr =
     (case snd (UpdatedIssues L W ghr) of
        Panic \<Rightarrow> Some (fst (UpdatedIssues L W ghr), Panic)
      | Done updated \<Rightarrow>
          (case snd (CommentFrequency L W ghr (snd updated)) of
             Panic \<Rightarrow>
               Some (fst (UpdatedIssues L W ghr) @ fst (CommentFrequency L W ghr (snd updated)),
                     Panic)
           | Done comment \<Rightarrow>
               Some (fst (UpdatedIssues L W ghr) @ fst (CommentFrequency L W ghr (snd updated)),
                     Done (\<lambda>score. score\<lparr>UpdatedIssuesCount := snd updated,
                                             CommentFrequency' := snd comment\<rparr>))))"

definition goroutines :: "Lib \<Rightarrow> World \<Rightarrow> GitHubRepository \<Rightarrow> goroutine list" where
  "goroutines L W ghr =
     [go (CreatedSince W ghr) (\<lambda>v score. score\<lparr>CreatedSince' := v\<rparr>),
      go (UpdatedSince W ghr) (\<lambda>v score. score\<lparr>UpdatedSince' := v\<rparr>),
      go (Contributors L W ghr) (\<lambda>v score. score\<lparr>ContributorCount := v\<rparr>),
      (case ContributorOrgs L W ghr of
         None \<Rightarrow> None
       | Some m \<Rightarrow> go m (\<lambda>v score. score\<lparr>OrgCount := int (card v)\<rparr>)),
      go (CommitFrequency W ghr) (\<lambda>v score. score\<lparr>CommitFrequency' := v\<rparr>),
      (case RecentReleases L W ghr of
         None \<Rightarrow> None
       | Some m \<Rightarrow> go m (\<lambda>v score. score\<lparr>RecentReleasesCount := v\<rparr>)),
      go (ClosedIssues L W ghr) (\<lambda>v score. score\<lparr>ClosedIssuesCount := v\<rparr>),
      goIssues L W ghr,
      go (Dependents L W ghr) (\<lambda>v score. score\<lparr>DependentsCount := v\<rparr>)]"

text \<open>
  \<^verbatim>\<open>wg.Wait()\<close>: a panic in a goroutine ends the process; otherwise the wait returns
  once all are done, with every write made. The goroutines write disjoint fields and
  share nothing else, so the order of the writes does not matter; the trace lists the
  requests in the order the goroutines are started.
\<close>

definition panicked :: "goroutine \<Rightarrow> bool" where
  "panicked g = (case g of Some (tr, Panic) \<Rightarrow> True | Some (tr, Done w) \<Rightarrow> False | None \<Rightarrow> False)"

definition requests :: "goroutine \<Rightarrow> Call list" where
  "requests g = (case g of Some (tr, r) \<Rightarrow> tr | None \<Rightarrow> [])"

definition written :: "goroutine \<Rightarrow> Score \<Rightarrow> Score" where
  "written g = (case g of Some (tr, Done w) \<Rightarrow> w | Some (tr, Panic) \<Rightarrow> id | None \<Rightarrow> id)"

definition wait :: "goroutine list \<Rightarrow> Score \<Rightarrow> (Call list \<times> Score outcome) option" where
  "wait gs score =
     (if list_ex panicked gs then Some (concat (map requests gs), Panic)
      else if list_ex (\<lambda>g. g = None) gs then None
      else Some (concat (map requests gs), Done (foldl (\<lambda>s g. written g s) score gs)))"

definition totalWeight :: "float64 \<Rightarrow> float64" where
  "totalWeight additionalParamsTotalWeight =
     fadd (fadd (fadd (fadd (fadd (fadd (fadd (fadd (fadd (fadd
       CreatedSinceWeight UpdatedSinceWeight)
       ContributorCountWeight) OrgCountWeight)
       CommitFrequencyWeight) RecentReleasesWeight)
       ClosedIssuesWeight) UpdatedIssuesWeight)
       CommentFrequencyWeight) DependentsCountWeight)
       additionalParamsTotalWeight"

definition weightedSum :: "Score \<Rightarrow> float64 \<Rightarrow> float64" where
  "weightedSum score additionalParamsScore =
     fadd (fadd (fadd (fadd (fadd (fadd (fadd (fadd (fadd (fadd
       (ParamScore (PInt (CreatedSince' score)) CreatedSinceThreshold CreatedSinceWeight)
       (ParamScore (PInt (UpdatedSince' score)) UpdatedSinceThreshold UpdatedSinceWeight))
       (ParamScore (PInt (ContributorCount score)) ContributorCountThreshold ContributorCountWeight))
       (ParamScore (PInt (OrgCount score)) OrgCountThreshold OrgCountWeight))
       (ParamScore (PFloat (CommitFrequency' score)) CommitFrequencyThreshold CommitFrequencyWeight))
       (ParamScore (PInt (RecentReleasesCount score)) RecentReleasesThreshold RecentReleasesWeight))
       (ParamScore (PInt (ClosedIssuesCount score)) ClosedIssuesThreshold ClosedIssuesWeight))
       (ParamScore (PInt (UpdatedIssuesCount score)) UpdatedIssuesThreshold UpdatedIssuesWeight))
       (ParamScore (PFloat (CommentFrequency' score)) CommentFrequencyThreshold CommentFrequencyWeight))
       (ParamScore (PInt (DependentsCount score)) DependentsCountThreshold DependentsCountWeight))
       additionalParamsScore"

text \<open>
  \<^verbatim>\<open>RepositoryStats\<close>. The result is the requests made and what the function returns
  (\<open>Panic\<close> when a goroutine's panic ends the process), or \<open>None\<close> when it never returns.
  The test after the barrier reads \<^verbatim>\<open>ghr.Error\<close> of the function's own parameter.
\<close>

definition RepositoryStats ::
  "Lib \<Rightarrow> World \<Rightarrow> GitHubRepository \<Rightarrow> string list
     \<Rightarrow> (Call list \<times> (Score \<times> error option) outcome) option" where
  "RepositoryStats L W ghr params =
     (case parseAdditionalParams L params of
        Inl err \<Rightarrow> Some ([], Done (emptyScore, Some (ErrInvalidParamFormat @ '' : '' @ err)))
      | Inr additionalParams \<Rightarrow>
          (let additionalParamsTotalWeight =
                 foldl (\<lambda>acc param. fadd acc (Weight param)) (Fin 0) additionalParams;
               additionalParamsScore =
                 foldl (\<lambda>acc param. fadd acc
                          (ParamScore (PFloat (Value param)) (MaxThreshold param) (Weight param)))
                   (Fin 0) additionalParams;
               score = emptyScore\<lparr>Name := GetName (R ghr), URL := GetHTMLURL (R ghr),
                                  Language := GetLanguage (R ghr)\<rparr>
           in case wait (goroutines L W ghr) score of
                None \<Rightarrow> None
              | Some (tr, Panic) \<Rightarrow> Some (tr, Panic)
              | Some (tr, Done score1) \<Rightarrow>
                  (case Error ghr of
                     Some err \<Rightarrow> Some (tr, Done (emptyScore, Some err))
                   | None \<Rightarrow>
                       Some (tr,
                             Done (score1\<lparr>CriticalityScore :=
                                            fdiv (fround (fmul (fdiv (weightedSum score1 additionalParamsScore)
                                                                     (totalWeight additionalParamsTotalWeight))
                                                               (Fin 100000)))
                                                 (Fin 100000),
                                          ScoredOn := FormatUnixDate L (Now W)\<rparr>,
                                   None)))))"

section \<open>An instance of the library and of the world\<close>

text \<open>
  To run the model a library is needed. This one agrees with Go's on the strings used
  below: \<open>decimalParseFloat\<close> reads a sign, digits and an optional fraction (no
  exponent, no \<^verbatim>\<open>Inf\<close> or \<^verbatim>\<open>NaN\<close>); \<open>rawQueryOf\<close> refuses control characters and takes
  what follows the first \<^verbatim>\<open>?\<close>, up to a \<^verbatim>\<open>#\<close>; \<open>plainQueryGet\<close> splits at \<^verbatim>\<open>&\<close> and
  \<^verbatim>\<open>=\<close> and unescapes nothing; \<open>noSubmatch\<close> is the answer of the dependents pattern on
  a page without the words it looks for; \<open>doubling\<close> is the growth of a small slice
  before the runtime rounds it up to an allocation class.
\<close>

definition decimalParseFloat :: "string \<Rightarrow> float64 option" where
  "decimalParseFloat s =
     (let neg = (s \<noteq> [] \<and> hd s = CHR ''-'');
          body = (if s \<noteq> [] \<and> (hd s = CHR ''-'' \<or> hd s = CHR ''+'') then tl s else s);
          whole = takeWhile (\<lambda>c. c \<noteq> CHR ''.'') body;
          frac = drop (Suc (length whole)) body;
          v = of_int (digitsValue whole) + of_int (digitsValue frac) / 10 ^ length frac
      in if (whole = [] \<and> frac = []) \<or> \<not> list_all isDigit whole \<or> \<not> list_all isDigit frac
         then None
         else Some (Fin (if neg then - v else v)))"

definition rawQueryOf :: "string \<Rightarrow> string option" where
  "rawQueryOf s =
     (if list_ex (\<lambda>c. (of_char c :: nat) < 32 \<or> (of_char c :: nat) = 127) s then None
      else Some (drop 1 (dropWhile (\<lambda>c. c \<noteq> CHR ''?'') (takeWhile (\<lambda>c. c \<noteq> CHR ''#'') s))))"

definition plainQueryGet :: "string \<Rightarrow> string \<Rightarrow> string" where
  "plainQueryGet q key =
     (case find (\<lambda>kv. takeWhile (\<lambda>c. c \<noteq> CHR ''='') kv = key) (Split q ''&'') of
        None \<Rightarrow> []
      | Some kv \<Rightarrow> drop 1 (dropWhile (\<lambda>c. c \<noteq> CHR ''='') kv))"

definition noSubmatch :: "string \<Rightarrow> string list" where
  "noSubmatch b = []"

definition doubling :: "nat \<Rightarrow> nat \<Rightarrow> nat" where
  "doubling c n = (if 2 * c < n then n else 2 * c)"

definition plainLib :: Lib where
  "plainLib =
     \<lparr>ParseFloat = decimalParseFloat, url_Parse = rawQueryOf, query_Get = plainQueryGet,
      FindSubmatch = noSubmatch, FormatUnixDate = (\<lambda>t. ''Sat Nov 10 00:00:00 UTC 1979''),
      growslice = doubling\<rparr>"

text \<open>
  A repository created 3600 days (120 months of 30 days) before the run, whose last
  commit is of the moment of the run. Its API answers with one commit, no link header
  anywhere, fifteen contributors in one page whose users cannot be fetched, no commit
  activity, no release, no tag, no issue; the search page cannot be fetched.
\<close>

definition plainResponse :: Response where
  "plainResponse = \<lparr>Link = [], NextPage = 0, StatusCode = 200\<rparr>"

definition theRepository :: GitHubRepository where
  "theRepository =
     \<lparr>R = \<lparr>GetName = ''repo'', GetHTMLURL = ''https://github.com/owner/repo'',
            GetLanguage = ''Go'', CreatedAt = Some 0\<rparr>,
      Error = None\<rparr>"

definition quietWorld :: World where
  "quietWorld =
     \<lparr>Now = 311040000000000000,
      ListCommits = Succeeded [RepositoryCommit (Some (Some 311040000000000000))] plainResponse,
      ListContributors = (\<lambda>anon perPage page.
         Succeeded (if anon = ''true'' then [Contributor 1] else map Contributor [1..15])
           plainResponse),
      UsersGetByID = (\<lambda>uid. Failed None ''not found''),
      ListCommitActivity = Succeeded [] plainResponse,
      ListReleases = (\<lambda>perPage page. Succeeded [] plainResponse),
      ListTags = (\<lambda>perPage. Succeeded () plainResponse),
      IssuesListByRepo = (\<lambda>state since perPage. Succeeded () plainResponse),
      IssuesListComments = (\<lambda>since perPage. Succeeded () plainResponse),
      httpGet = (\<lambda>i. HttpError)\<rparr>"

section \<open>Notions used to state the properties\<close>

text \<open>A parameter string of the shape \<^verbatim>\<open>value:weight:max_threshold\<close>: three segments
  between colons, each of which \<^verbatim>\<open>strconv.ParseFloat\<close> accepts.\<close>

definition wellFormed :: "Lib \<Rightarrow> string \<Rightarrow> bool" where
  "wellFormed L p =
     (length (Split p '':'') = 3
      \<and> ParseFloat L (Split p '':'' ! 0) \<noteq> None
      \<and> ParseFloat L (Split p '':'' ! 1) \<noteq> None
      \<and> ParseFloat L (Split p '':'' ! 2) \<noteq> None)"

text \<open>A response as GitHub paginates: the link header names the next and the last page.\<close>

definition lastPage42 :: Response where
  "lastPage42 =
     \<lparr>Link = ''<https://api.github.com/repositories/1/tags?per_page=1&page=2>; rel=\"next\", <https://api.github.com/repositories/1/tags?per_page=1&page=42>; rel=\"last\"'',
      NextPage = 2, StatusCode = 200\<rparr>"


text \<open>The repository ten days after its creation, with no release and a hundred tags.\<close>

definition lastPage100 :: Response where
  "lastPage100 =
     \<lparr>Link = ''<https://api.github.com/repositories/1/tags?per_page=1&page=2>; rel=\"next\", <https://api.github.com/repositories/1/tags?per_page=1&page=100>; rel=\"last\"'',
      NextPage = 2, StatusCode = 200\<rparr>"

definition tenDayWorld :: World where
  "tenDayWorld =
     quietWorld\<lparr>Now := 864000000000000, ListTags := (\<lambda>perPage. Succeeded () lastPage100)\<rparr>"

text \<open>
  The aggregation, written as sums over lists: the ten scores of the metrics, the ten
  fixed weights, the score of an additional parameter, the ratio of the two sums and
  the rounding to five decimals. \<open>claimedScore\<close> follows the words of the
  specification, which multiply the ratio by 100 before rounding.
\<close>

definition fsum :: "float64 list \<Rightarrow> float64" where
  "fsum xs = foldr fadd xs (Fin 0)"

definition metricScores :: "Score \<Rightarrow> float64 list" where
  "metricScores score =
     [ParamScore (PInt (CreatedSince' score)) CreatedSinceThreshold CreatedSinceWeight,
      ParamScore (PInt (UpdatedSince' score)) UpdatedSinceThreshold UpdatedSinceWeight,
      ParamScore (PInt (ContributorCount score)) ContributorCountThreshold ContributorCountWeight,
      ParamScore (PInt (OrgCount score)) OrgCountThreshold OrgCountWeight,
      ParamScore (PFloat (CommitFrequency' score)) CommitFrequencyThreshold CommitFrequencyWeight,
      ParamScore (PInt (RecentReleasesCount score)) RecentReleasesThreshold RecentReleasesWeight,
      ParamScore (PInt (ClosedIssuesCount score)) ClosedIssuesThreshold ClosedIssuesWeight,
      ParamScore (PInt (UpdatedIssuesCount score)) UpdatedIssuesThreshold UpdatedIssuesWeight,
      ParamScore (PFloat (CommentFrequency' score)) CommentFrequencyThreshold CommentFrequencyWeight,
      ParamScore (PInt (DependentsCount score)) DependentsCountThreshold DependentsCountWeight]"

definition fixedWeights :: "float64 list" where
  "fixedWeights =
     [CreatedSinceWeight, UpdatedSinceWeight, ContributorCountWeight, OrgCountWeight,
      CommitFrequencyWeight, RecentReleasesWeight, ClosedIssuesWeight, UpdatedIssuesWeight,
      CommentFrequencyWeight, DependentsCountWeight]"

definition additionalScore :: "AdditionalParam \<Rightarrow> float64" where
  "additionalScore a = ParamScore (PFloat (Value a)) (MaxThreshold a) (Weight a)"

definition weightedRatio :: "Score \<Rightarrow> AdditionalParam list \<Rightarrow> float64" where
  "weightedRatio score additionalParams =
     fdiv (fadd (fsum (metricScores score)) (fsum (map additionalScore additionalParams)))
          (fadd (fsum fixedWeights) (fsum (map Weight additionalParams)))"

definition roundTo5 :: "float64 \<Rightarrow> float64" where
  "roundTo5 x = fdiv (fround (fmul x (Fin 100000))) (Fin 100000)"


text \<open>
  The metrics the providers collect in \<open>quietWorld\<close>, and the score returned there.
\<close>

definition quietMetrics :: Score where
  "quietMetrics =
     \<lparr>Name = ''repo'', URL = ''https://github.com/owner/repo'', Language = ''Go'',
      CreatedSince' = 120, UpdatedSince' = 0, ContributorCount = 0, OrgCount = 0,
      CommitFrequency' = Fin 0, RecentReleasesCount = 0, ClosedIssuesCount = 0,
      UpdatedIssuesCount = 0, CommentFrequency' = Fin 0, DependentsCount = 0,
      CriticalityScore = Fin 0, ScoredOn = []\<rparr>"

definition quietScore :: Score where
  "quietScore =
     quietMetrics\<lparr>CriticalityScore := Fin (11765 / 100000),
                  ScoredOn := ''Sat Nov 10 00:00:00 UTC 1979''\<rparr>"

text \<open>
  The world of \<open>quietWorld\<close> while GitHub is still computing the commit activity:
  the call fails with status 202.
\<close>

definition pendingWorld :: World where
  "pendingWorld =
     quietWorld\<lparr>ListCommitActivity :=
        Failed (Some \<lparr>Link = [], NextPage = 0, StatusCode = 202\<rparr>)
          ''job scheduled on GitHub side; try again later''\<rparr>"

section \<open>Properties of ParamScore\<close>

lemma ParamScore_Fin:
  assumes "0 \<le> p" and "0 < max p maxValue"
  shows "ParamScore (PFloat (Fin p)) (Fin maxValue) (Fin weight)
         = Fin (ln (1 + p) / ln (1 + max p maxValue) * weight)"
proof -
  have m: "fmax (Fin p) (Fin maxValue) = Fin (max p maxValue)"
    by (simp add: max_def)
  have d: "ln (1 + max p maxValue) \<noteq> 0"
    using assms by simp
  show ?thesis
    unfolding ParamScore_def Let_def using assms d
    by (simp add: m del: fmax.simps)
qed

lemma ParamScore_PInt:
  "ParamScore (PInt n) maxValue weight = ParamScore (PFloat (Fin (of_int n))) maxValue weight"
  by (simp add: ParamScore_def)






section \<open>Organization names\<close>

text \<open>
  Claim C7. \<open>filterOrgName\<close> maps each of \<^verbatim>\<open>"Acme Inc."\<close>, \<^verbatim>\<open>"ACME, LLC"\<close>,
  \<^verbatim>\<open>"@Acme"\<close> and \<^verbatim>\<open>"Acme "\<close> to \<^verbatim>\<open>"acme"\<close>.
\<close>

theorem filterOrgName_acme:
  "filterOrgName ''Acme Inc.'' = ''acme''
   \<and> filterOrgName ''ACME, LLC'' = ''acme''
   \<and> filterOrgName ''@Acme'' = ''acme''
   \<and> filterOrgName ''Acme '' = ''acme''"
  by code_simp

section \<open>Counting by the last page\<close>

lemma substr_to_last: "0 \<le> k \<Longrightarrow> \<exists>r. substr s k (- 1) = Done r"
  by (auto simp: substr_def Let_def)

lemma parseLinks_Done: "\<exists>m. parseLinks xs links = Done m"
proof (induction xs arbitrary: links)
  case Nil
  show ?case by simp
next
  case (Cons linkHeader rest)
  obtain u where u: "substr (Split linkHeader ''; '' ! 0) 1 (- 1) = Done u"
    using substr_to_last [of 1] by auto
  obtain r where r: "substr (Split linkHeader ''; '' ! 1) 5 (- 1) = Done r"
    using substr_to_last [of 5] by auto
  show ?case
    using Cons.IH u r by (simp add: Let_def)
qed

lemma parseLinkHeader_Done: "\<exists>links. parseLinkHeader link = Done links"
  by (simp add: parseLinkHeader_def parseLinks_Done)

text \<open>
  Claim C5. \<open>totalCount\<close> never panics. With the links that \<open>parseLinkHeader\<close> reads
  from the response, it returns 0 when there is no \<^verbatim>\<open>last\<close> link, 0 when \<^verbatim>\<open>url.Parse\<close>
  refuses the link, the number \<open>n\<close> when \<^verbatim>\<open>strconv.Atoi\<close> reads the \<^verbatim>\<open>page\<close> parameter
  of the link's query as \<open>n\<close>, and 0 when \<^verbatim>\<open>Atoi\<close> refuses it.
\<close>

theorem totalCount_last_page:
  "\<exists>links. parseLinkHeader (Link resp) = Done links
     \<and> (links ''last'' = None \<longrightarrow> totalCount L resp = Done 0)
     \<and> (\<forall>lastURL. links ''last'' = Some lastURL \<longrightarrow>
          (url_Parse L lastURL = None \<longrightarrow> totalCount L resp = Done 0)
          \<and> (\<forall>rawQuery. url_Parse L lastURL = Some rawQuery \<longrightarrow>
               (\<forall>n. Atoi (query_Get L rawQuery ''page'') = (n, True)
                     \<longrightarrow> totalCount L resp = Done n)
               \<and> (\<not> snd (Atoi (query_Get L rawQuery ''page''))
                     \<longrightarrow> totalCount L resp = Done 0)))"
proof -
  obtain links where l: "parseLinkHeader (Link resp) = Done links"
    using parseLinkHeader_Done by blast
  show ?thesis
    by (rule exI [of _ links]) (simp add: l totalCount_def Let_def)
qed

lemma lastPage42_last:
  "(case parseLinkHeader (Link lastPage42) of Panic \<Rightarrow> None | Done links \<Rightarrow> links ''last'')
   = Some ''https://api.github.com/repositories/1/tags?per_page=1&page=42''"
  by code_simp

lemma lastPage42_query:
  "url_Parse plainLib ''https://api.github.com/repositories/1/tags?per_page=1&page=42''
   = Some ''per_page=1&page=42''"
  by code_simp

lemma lastPage42_page:
  "Atoi (query_Get plainLib ''per_page=1&page=42'' ''page'') = (42, True)"
  by code_simp

text \<open>On GitHub's header whose last link carries \<^verbatim>\<open>page=42\<close> the count is 42.\<close>

theorem totalCount_last_page_witness:
  "totalCount plainLib lastPage42 = Done 42"
proof -
  obtain links where l: "parseLinkHeader (Link lastPage42) = Done links"
    and s: "\<forall>lastURL. links ''last'' = Some lastURL \<longrightarrow>
          (url_Parse plainLib lastURL = None \<longrightarrow> totalCount plainLib lastPage42 = Done 0)
          \<and> (\<forall>rawQuery. url_Parse plainLib lastURL = Some rawQuery \<longrightarrow>
               (\<forall>n. Atoi (query_Get plainLib rawQuery ''page'') = (n, True)
                     \<longrightarrow> totalCount plainLib lastPage42 = Done n)
               \<and> (\<not> snd (Atoi (query_Get plainLib rawQuery ''page''))
                     \<longrightarrow> totalCount plainLib lastPage42 = Done 0))"
    using totalCount_last_page [of lastPage42 plainLib] by blast
  have "links ''last'' = Some ''https://api.github.com/repositories/1/tags?per_page=1&page=42''"
    using lastPage42_last by (simp add: l)
  then show ?thesis
    using s lastPage42_query lastPage42_page by blast
qed

section \<open>The first commit\<close>

text \<open>
  Claim C9. When the commit list is fetched without error, \<open>UpdatedSince\<close> panics on
  the empty list, where \<^verbatim>\<open>commits[0]\<close> is out of range, and returns the months since the
  first commit of a list that has one (whose \<^verbatim>\<open>Commit\<close> pointer is not nil).
\<close>

theorem UpdatedSince_first_commit:
  assumes "ListCommits W = Succeeded commits resp"
  shows "(commits = [] \<longrightarrow> snd (UpdatedSince W ghr) = Panic)
       \<and> (\<forall>lastCommit rest d. commits = lastCommit # rest \<and> AuthorDate lastCommit = Some d
            \<longrightarrow> snd (UpdatedSince W ghr)
                = Done (ghr, months (Since W (case d of None \<Rightarrow> zeroTime | Some t \<Rightarrow> t))))"
  using assms by (auto simp: UpdatedSince_def)

theorem UpdatedSince_first_commit_witness:
  "ListCommits (quietWorld\<lparr>ListCommits := Succeeded [] plainResponse\<rparr>) = Succeeded [] plainResponse
   \<and> snd (UpdatedSince (quietWorld\<lparr>ListCommits := Succeeded [] plainResponse\<rparr>) theRepository) = Panic"
  using UpdatedSince_first_commit
          [of "quietWorld\<lparr>ListCommits := Succeeded [] plainResponse\<rparr>" "[]" plainResponse theRepository]
  by simp

section \<open>Malformed additional parameters\<close>

lemma parseParams_Inr_iff:
  "(\<exists>r. parseParams L ps acc = Inr r) \<longleftrightarrow> list_all (wellFormed L) ps"
proof (induction ps arbitrary: acc)
  case Nil
  show ?case by simp
next
  case (Cons p ps)
  show ?case
    using Cons.IH
    by (auto simp: wellFormed_def Let_def split: option.splits)
qed

lemma parseAdditionalParams_Inr_iff:
  "(\<exists>r. parseAdditionalParams L params = Inr r) \<longleftrightarrow> list_all (wellFormed L) params"
  using parseParams_Inr_iff [of L params "[]"]
  by (cases params) (simp_all add: parseAdditionalParams_def del: parseParams.simps)

text \<open>
  Claim C6. \<open>parseAdditionalParams\<close> accepts a list exactly when every string in it has
  the shape \<^verbatim>\<open>value:weight:max_threshold\<close> with three segments that parse as floats.
  Otherwise \<open>RepositoryStats\<close> returns the empty score and an error that starts with
  \<^verbatim>\<open>invalid param format\<close>, having made no request: whatever the world is, the trace is
  empty.
\<close>

theorem malformed_param_fails_first:
  "((\<exists>additionalParams. parseAdditionalParams L params = Inr additionalParams)
      \<longleftrightarrow> list_all (wellFormed L) params)
   \<and> (\<not> list_all (wellFormed L) params \<longrightarrow>
        (\<exists>msg. RepositoryStats L W ghr params
                = Some ([], Done (emptyScore, Some (ErrInvalidParamFormat @ '' : '' @ msg)))))"
proof (intro conjI impI)
  show "(\<exists>additionalParams. parseAdditionalParams L params = Inr additionalParams)
          \<longleftrightarrow> list_all (wellFormed L) params"
    by (rule parseAdditionalParams_Inr_iff)
next
  assume "\<not> list_all (wellFormed L) params"
  then have "\<not> (\<exists>r. parseAdditionalParams L params = Inr r)"
    by (simp add: parseAdditionalParams_Inr_iff)
  then obtain msg where "parseAdditionalParams L params = Inl msg"
    by (cases "parseAdditionalParams L params") auto
  then show "\<exists>msg. RepositoryStats L W ghr params
                = Some ([], Done (emptyScore, Some (ErrInvalidParamFormat @ '' : '' @ msg)))"
    by (simp add: RepositoryStats_def)
qed

lemma one_two_malformed: "\<not> list_all (wellFormed plainLib) [''1:2'']"
  by code_simp

theorem malformed_param_fails_first_witness:
  "\<not> list_all (wellFormed plainLib) [''1:2'']
   \<and> (\<exists>msg. RepositoryStats plainLib quietWorld theRepository [''1:2'']
              = Some ([], Done (emptyScore, Some (ErrInvalidParamFormat @ '' : '' @ msg))))"
  using malformed_param_fails_first [of plainLib "[''1:2'']" quietWorld theRepository]
        one_two_malformed
  by blast

section \<open>The slice of the top contributors\<close>







section \<open>The fallback of RecentReleases\<close>

text \<open>
  Claim C4, at a repository created ten days before the run, without releases and with
  100 tags: \<^verbatim>\<open>daysSinceCreation\<close> is the duration in nanoseconds divided by 24, not a
  number of days, and the estimate is \<open>100 / 36000000000000 * 365 = 0\<close> where 100 tags
  in 10 days scaled to 365 days are 3650.
\<close>

theorem RecentReleases_ten_days:
  "Since tenDayWorld 0 = 10 * 24 * 3600000000000
   \<and> fetchReleases tenDayWorld 0 [] [] = Some ([CListReleases 100 0], Inr [])
   \<and> totalCount plainLib lastPage100 = Done 100
   \<and> RecentReleases plainLib tenDayWorld theRepository
     = Some ([CListReleases 100 0, CListTags 1], Done (theRepository, 0))"
  by code_simp

section \<open>Sums of float64\<close>

lemma fadd_NaN_right [simp]: "fadd x NaN = NaN"
  by (cases x) simp_all

lemma fadd_zero_left [simp]: "fadd (Fin 0) x = x"
  by (cases x) simp_all

lemma fadd_zero_right [simp]: "fadd x (Fin 0) = x"
  by (cases x) simp_all

lemma fadd_assoc: "fadd (fadd a b) c = fadd a (fadd b c)"
  by (cases a; cases b; cases c) simp_all

lemma foldl_fadd:
  "foldl (\<lambda>acc x. fadd acc (f x)) a xs = fadd a (fsum (map f xs))"
  by (induction xs arbitrary: a) (simp_all add: fsum_def fadd_assoc)


lemma weightedSum_fsum:
  "weightedSum score s = fadd (fsum (metricScores score)) s"
  by (simp add: weightedSum_def metricScores_def fsum_def fadd_assoc)

lemma totalWeight_fsum:
  "totalWeight t = fadd (fsum fixedWeights) t"
  by (simp add: totalWeight_def fixedWeights_def fsum_def fadd_assoc)

lemma metricScores_final [simp]:
  "metricScores (score\<lparr>CriticalityScore := c, ScoredOn := d\<rparr>) = metricScores score"
  by (simp add: metricScores_def)

lemma additionalScore_eta:
  "(\<lambda>param. ParamScore (PFloat (Value param)) (MaxThreshold param) (Weight param))
   = additionalScore"
  by (rule ext) (simp add: additionalScore_def)

section \<open>The run of RepositoryStats\<close>

lemma RepositoryStats_run:
  assumes "parseAdditionalParams L params = Inr additionalParams"
    and "wait (goroutines L W ghr)
           (emptyScore\<lparr>Name := GetName (R ghr), URL := GetHTMLURL (R ghr),
                        Language := GetLanguage (R ghr)\<rparr>) = Some (tr, Done score1)"
    and "Error ghr = None"
  shows "RepositoryStats L W ghr params
         = Some (tr, Done (score1\<lparr>CriticalityScore := roundTo5 (weightedRatio score1 additionalParams),
                                  ScoredOn := FormatUnixDate L (Now W)\<rparr>, None))"
  using assms
  by (simp add: RepositoryStats_def Let_def weightedSum_fsum totalWeight_fsum foldl_fadd
        roundTo5_def weightedRatio_def additionalScore_eta)


section \<open>math.Round\<close>


section \<open>The aggregation\<close>


section \<open>The quiet world\<close>


lemma pending_wait:
  "map_option snd (wait (goroutines plainLib pendingWorld theRepository)
     (emptyScore\<lparr>Name := GetName (R theRepository), URL := GetHTMLURL (R theRepository),
                  Language := GetLanguage (R theRepository)\<rparr>))
   = Some (Done quietMetrics)"
  by code_simp


lemma ParamScore_PInt_zero: "0 < maxValue \<Longrightarrow> ParamScore (PInt 0) (Fin maxValue) (Fin weight) = Fin 0"
  using ParamScore_Fin [of 0 maxValue weight] by (simp add: ParamScore_PInt)

lemma ParamScore_PFloat_zero:
  "0 < maxValue \<Longrightarrow> ParamScore (PFloat (Fin 0)) (Fin maxValue) (Fin weight) = Fin 0"
  using ParamScore_Fin [of 0 maxValue weight] by simp

lemma ParamScore_PInt_full:
  "0 < p \<Longrightarrow> maxValue \<le> real_of_int p
   \<Longrightarrow> ParamScore (PInt p) (Fin maxValue) (Fin weight) = Fin weight"
  using ParamScore_Fin [of "real_of_int p" maxValue weight]
  by (simp add: ParamScore_PInt max_def)

lemma quiet_metricScores:
  "metricScores quietMetrics = [Fin 1, Fin 0, Fin 0, Fin 0, Fin 0, Fin 0, Fin 0, Fin 0, Fin 0, Fin 0]"
  by (simp add: metricScores_def quietMetrics_def weight_defs threshold_defs
        ParamScore_PInt_zero ParamScore_PFloat_zero ParamScore_PInt_full)

lemma fixedWeights_sum: "fsum fixedWeights = Fin (17 / 2)"
  by (simp add: fixedWeights_def fsum_def weight_defs)

lemma fsum_Nil [simp]: "fsum [] = Fin 0"
  by (simp add: fsum_def)

lemma quiet_metricSum: "fsum (metricScores quietMetrics) = Fin 1"
  by (simp add: quiet_metricScores fsum_def)

lemma quiet_ratio: "weightedRatio quietMetrics [] = Fin (2 / 17)"
  by (simp add: weightedRatio_def quiet_metricSum fixedWeights_sum)

lemma quiet_rounded: "roundTo5 (Fin (2 / 17)) = Fin (11765 / 100000)"
  by (simp add: roundTo5_def round_half_away_def)


lemma quiet_run_of_wait:
  assumes "map_option snd (wait (goroutines plainLib W theRepository)
     (emptyScore\<lparr>Name := GetName (R theRepository), URL := GetHTMLURL (R theRepository),
                  Language := GetLanguage (R theRepository)\<rparr>)) = Some (Done quietMetrics)"
  shows "map_option snd (RepositoryStats plainLib W theRepository [])
         = Some (Done (quietScore, None))"
proof -
  obtain tr where w: "wait (goroutines plainLib W theRepository)
     (emptyScore\<lparr>Name := GetName (R theRepository), URL := GetHTMLURL (R theRepository),
                  Language := GetLanguage (R theRepository)\<rparr>) = Some (tr, Done quietMetrics)"
    using assms by (auto simp: map_option_case split: option.splits)
  have p: "parseAdditionalParams plainLib [] = Inr []"
    by (simp add: parseAdditionalParams_def)
  have e: "Error theRepository = None"
    by (simp add: theRepository_def)
  show ?thesis
    using RepositoryStats_run [OF p w e]
    by (simp add: quiet_ratio quiet_rounded quietScore_def plainLib_def)
qed





section \<open>A provider's error\<close>

text \<open>
  The providers are methods on a value receiver: each assigns \<^verbatim>\<open>ghr.Error\<close> on its own
  copy, and \<open>RepositoryStats\<close> tests the field of the repository it was called on. So a
  run on a repository without an error can only fail on the additional parameters.
\<close>

lemma RepositoryStats_errors:
  assumes "Error ghr = None"
    and "RepositoryStats L W ghr params = Some (tr, Done (score, Some err))"
  shows "\<exists>msg. parseAdditionalParams L params = Inl msg"
  using assms
  by (cases "parseAdditionalParams L params")
     (auto simp: RepositoryStats_def Let_def split: option.splits outcome.splits)

text \<open>
  Claim C2, in \<open>pendingWorld\<close>: \<open>CommitFrequency\<close> records
  \<open>ErrCommitFrequencyBeingCalculated\<close> on its copy of the repository and returns 0, and
  \<open>RepositoryStats\<close> returns the populated score of \<open>quietWorld\<close> with no error, where
  the run should fail with that error and an empty score.
\<close>

theorem pending_commit_activity_scores:
  "snd (CommitFrequency pendingWorld theRepository)
     = Done (theRepository\<lparr>Error := Some ErrCommitFrequencyBeingCalculated\<rparr>, Fin 0)
   \<and> map_option snd (RepositoryStats plainLib pendingWorld theRepository [])
     = Some (Done (quietScore, None))"
proof
  show "snd (CommitFrequency pendingWorld theRepository)
     = Done (theRepository\<lparr>Error := Some ErrCommitFrequencyBeingCalculated\<rparr>, Fin 0)"
    by (simp add: CommitFrequency_def pendingWorld_def)
  show "map_option snd (RepositoryStats plainLib pendingWorld theRepository [])
     = Some (Done (quietScore, None))"
    by (rule quiet_run_of_wait [OF pending_wait])
qed

section \<open>Zero over zero\<close>


lemma roundTo5_NaN: "roundTo5 (fdiv (fadd x NaN) y) = NaN"
  by (simp add: roundTo5_def)





end
